theory Spec2Isabelle
  imports Complex_Main
begin

section \<open>Data model of the trading executor\<close>

text \<open>
  The development embeds \<^verbatim>\<open>src/executor.py\<close>: the class
  \<^verbatim>\<open>BinanceFuturesExecutor\<close> and the function \<^verbatim>\<open>run_daily_trade\<close>.
  Python dictionaries are association lists in insertion order, which is the order
  in which \<^verbatim>\<open>.items()\<close> iterates.
\<close>

datatype position_side = LONG | SHORT | BOTH

datatype order_side = Buy | Sell

datatype action_kind = Close | Adjust

text \<open>One element of the list returned by \<^verbatim>\<open>exchange.fetch_positions()\<close>: the fields
  \<^verbatim>\<open>pos['symbol']\<close>, \<^verbatim>\<open>pos['contracts']\<close>, \<^verbatim>\<open>pos['side']\<close> and
  \<^verbatim>\<open>pos['info']['positionSide']\<close>.\<close>

record position =
  pos_symbol :: string
  pos_contracts :: real
  pos_side :: string
  pos_positionSide :: position_side

text \<open>One entry of \<^verbatim>\<open>trade_plan\<close>.\<close>

record trade =
  symbol :: string
  side :: order_side
  quantity :: real
  positionSide :: position_side
  action :: action_kind

text \<open>The inner dictionary \<^verbatim>\<open>{'LONG': 0, 'SHORT': 0}\<close> of \<^verbatim>\<open>current_positions\<close>,
  indexed by the position side tag. The planner only ever reads the keys
  \<^verbatim>\<open>'LONG'\<close> and \<^verbatim>\<open>'SHORT'\<close>.\<close>

type_synonym positions_info = "position_side \<Rightarrow> real"

type_synonym position_book = "(string \<times> positions_info) list"

type_synonym target_book = "(string \<times> real) list"

definition default_info :: positions_info where
  "default_info = (\<lambda>_. 0)"

section \<open>Symbol formatting\<close>

definition endswith :: "string \<Rightarrow> string \<Rightarrow> bool" where
  "endswith s t = (length t \<le> length s \<and> drop (length s - length t) s = t)"

text \<open>\<^verbatim>\<open>symbol.split(':')[0]\<close>, then \<^verbatim>\<open>replace('/', '')\<close>, then one trailing
  \<^verbatim>\<open>USDT\<close> is removed if present and \<^verbatim>\<open>USDT\<close> is appended.\<close>

definition format_symbol_for_binance :: "string \<Rightarrow> string" where
  "format_symbol_for_binance symb =
     (let s1 = takeWhile (\<lambda>c. c \<noteq> CHR '':'') symb;
          s2 = filter (\<lambda>c. c \<noteq> CHR ''/'') s1;
          s3 = (if endswith s2 ''USDT'' then take (length s2 - 4) s2 else s2)
      in s3 @ ''USDT'')"

section \<open>Double arithmetic\<close>

text \<open>
  Python's \<^verbatim>\<open>float\<close> is the IEEE 754 double. A finite double is a real number
  \<open>m * 2 ^ e\<close> with \<open>\<bar>m\<bar> < 2 ^ 53\<close> and \<open>e \<ge> - 1074\<close>, and a quantity or a price of the
  model is the real number that the double denotes. Addition, subtraction and
  multiplication of doubles give the exact result rounded to the nearest double, a tie
  going to the double with the even significand; below \<open>2 ^ - 1022\<close> the doubles are the
  multiples of \<open>2 ^ - 1074\<close>. Comparison, negation and \<^verbatim>\<open>abs\<close> are exact. Infinities and
  NaN are not modelled: a result beyond the largest finite double is rounded as if the
  exponent range had no upper end.
\<close>

definition round_half_even :: "real \<Rightarrow> int" where
  "round_half_even m =
     (let f = \<lfloor>m\<rfloor> in
      if m - of_int f < 1 / 2 then f
      else if 1 / 2 < m - of_int f then f + 1
      else if even f then f else f + 1)"

text \<open>The exponent of the last place of the doubles around \<open>x\<close>.\<close>

definition double_exponent :: "real \<Rightarrow> int" where
  "double_exponent x = max (\<lfloor>log 2 \<bar>x\<bar>\<rfloor> - 52) (- 1074)"

definition double_round :: "real \<Rightarrow> real" where
  "double_round x =
     (if x = 0 then 0
      else of_int (round_half_even (x / 2 powr of_int (double_exponent x))) *
             2 powr of_int (double_exponent x))"

definition is_double :: "real \<Rightarrow> bool" where
  "is_double x = (\<exists>m e. \<bar>m\<bar> < 2 ^ 53 \<and> - 1074 \<le> e \<and> x = of_int m * 2 powr of_int e)"

definition float_add :: "real \<Rightarrow> real \<Rightarrow> real" where
  "float_add a b = double_round (a + b)"

definition float_sub :: "real \<Rightarrow> real \<Rightarrow> real" where
  "float_sub a b = double_round (a - b)"

definition float_mul :: "real \<Rightarrow> real \<Rightarrow> real" where
  "float_mul a b = double_round (a * b)"

section \<open>The current position book\<close>

text \<open>The body of the first loop of \<^verbatim>\<open>execute_trades\<close>: a record with nonzero
  contracts creates the entry of its formatted symbol if it is new, then stores the
  contracts under the record's position side.\<close>

definition record_position :: "position_book \<Rightarrow> position \<Rightarrow> position_book" where
  "record_position current_positions pos =
     (if \<bar>pos_contracts pos\<bar> > 0 then
        (let symb = format_symbol_for_binance (pos_symbol pos);
             cp = (if symb \<notin> set (map fst current_positions)
                   then current_positions @ [(symb, default_info)]
                   else current_positions)
         in map (\<lambda>(k, v). if k = symb
                            then (k, v(pos_positionSide pos := pos_contracts pos))
                            else (k, v)) cp)
      else current_positions)"

definition current_positions_of :: "position list \<Rightarrow> position_book" where
  "current_positions_of positions = foldl record_position [] positions"

section \<open>The trade plan\<close>

text \<open>Step 1 of the plan, for one entry of \<^verbatim>\<open>current_positions\<close>: a symbol that is
  not a key of \<^verbatim>\<open>target_positions\<close> is cleared.\<close>

definition clear_instrument :: "target_book \<Rightarrow> string \<times> positions_info \<Rightarrow> trade list" where
  "clear_instrument target_positions entry =
     (case entry of (symb, positions_info) \<Rightarrow>
        if symb \<notin> set (map fst target_positions) then
          (if positions_info LONG > 0
           then [\<lparr>symbol = symb, side = Sell, quantity = positions_info LONG,
                  positionSide = LONG, action = Close\<rparr>]
           else []) @
          (if positions_info SHORT > 0
           then [\<lparr>symbol = symb, side = Buy, quantity = positions_info SHORT,
                  positionSide = SHORT, action = Close\<rparr>]
           else [])
        else [])"

text \<open>\<^verbatim>\<open>current_positions.get(formatted_symbol, {'LONG': 0, 'SHORT': 0})\<close>.\<close>

definition current_info_of :: "position_book \<Rightarrow> string \<Rightarrow> positions_info" where
  "current_info_of current_positions symb =
     (case map_of current_positions (format_symbol_for_binance symb) of
        Some info \<Rightarrow> info
      | None \<Rightarrow> default_info)"

text \<open>Step 2 of the plan, for one entry of \<^verbatim>\<open>target_positions\<close>.\<close>

definition adjust_instrument :: "position_book \<Rightarrow> string \<times> real \<Rightarrow> trade list" where
  "adjust_instrument current_positions entry =
     (case entry of (symb, target_qty) \<Rightarrow>
        let current_info = current_info_of current_positions symb in
        if target_qty > 0 then
          (if current_info SHORT > 0
           then [\<lparr>symbol = symb, side = Buy, quantity = current_info SHORT,
                  positionSide = SHORT, action = Close\<rparr>]
           else []) @
          (let qty_diff = float_sub target_qty (current_info LONG) in
           if \<bar>qty_diff\<bar> > 1
           then [\<lparr>symbol = symb, side = (if qty_diff > 0 then Buy else Sell),
                  quantity = \<bar>qty_diff\<bar>, positionSide = LONG, action = Adjust\<rparr>]
           else [])
        else if target_qty < 0 then
          (if current_info LONG > 0
           then [\<lparr>symbol = symb, side = Sell, quantity = current_info LONG,
                  positionSide = LONG, action = Close\<rparr>]
           else []) @
          (let qty_diff = float_sub \<bar>target_qty\<bar> (current_info SHORT) in
           if \<bar>qty_diff\<bar> > 1
           then [\<lparr>symbol = symb, side = (if qty_diff > 0 then Sell else Buy),
                  quantity = \<bar>qty_diff\<bar>, positionSide = SHORT, action = Adjust\<rparr>]
           else [])
        else
          (if current_info LONG > 0
           then [\<lparr>symbol = symb, side = Sell, quantity = current_info LONG,
                  positionSide = LONG, action = Close\<rparr>]
           else []) @
          (if current_info SHORT > 0
           then [\<lparr>symbol = symb, side = Buy, quantity = current_info SHORT,
                  positionSide = SHORT, action = Close\<rparr>]
           else []))"

text \<open>The plan built by \<^verbatim>\<open>execute_trades\<close>: all of step 1 in the order of the
  current book, then all of step 2 in the order of the target book.\<close>

definition trade_plan :: "position_book \<Rightarrow> target_book \<Rightarrow> trade list" where
  "trade_plan current_positions target_positions =
     concat (map (clear_instrument target_positions) current_positions) @
     concat (map (adjust_instrument current_positions) target_positions)"

text \<open>The current book equals the target: every targeted instrument holds the target's
  magnitude on the target's side and nothing on the other side, and an instrument of
  the current book that is not targeted holds nothing. An instrument is a symbol up to
  \<^verbatim>\<open>format_symbol_for_binance\<close>, which is how \<^verbatim>\<open>execute_trades\<close> finds the current
  entry of a target.\<close>

definition book_equals_target :: "position_book \<Rightarrow> target_book \<Rightarrow> bool" where
  "book_equals_target current_positions target_positions =
     (list_all (\<lambda>(symb, target_qty).
         let info = current_info_of current_positions symb in
         if target_qty > 0 then info LONG = target_qty \<and> info SHORT = 0
         else if target_qty < 0 then info SHORT = \<bar>target_qty\<bar> \<and> info LONG = 0
         else info LONG = 0 \<and> info SHORT = 0) target_positions \<and>
      list_all (\<lambda>(symb, info).
         symb \<in> set (map (format_symbol_for_binance \<circ> fst) target_positions) \<or>
         (info LONG = 0 \<and> info SHORT = 0)) current_positions)"

text \<open>The order relation behind the plan's layout: an adjust action is never followed
  by a close action of the same symbol.\<close>

definition adjust_last :: "trade \<Rightarrow> trade \<Rightarrow> bool" where
  "adjust_last a b = (\<not> (action a = Adjust \<and> action b = Close \<and> symbol a = symbol b))"

section \<open>The exchange\<close>

text \<open>
  The exchange is the \<^verbatim>\<open>ccxt\<close> client. Every call on it is appended to a trace, and
  the answer to a call may depend on the whole trace before it, so the exchange can
  change its answers as orders are placed. A call answers with a value or raises an
  exception, which is its message. A malformed answer (a missing key, a price or a
  minimum amount that is \<^verbatim>\<open>None\<close>) raises inside the same \<^verbatim>\<open>try\<close> block as the call
  that produced it and before any later call, so it is counted as that call raising.
\<close>

type_synonym exn = string

type_synonym order = nat

text \<open>The \<^verbatim>\<open>params\<close> dictionary of \<^verbatim>\<open>place_order\<close>, with its two keys; both absent
  is the empty dictionary, which the code treats like \<^verbatim>\<open>None\<close>.\<close>

record order_params =
  positionSide_param :: "position_side option"
  reduceOnly_param :: "bool option"

datatype call =
    FetchBalance
  | FetchPositions "string list option"
  | FetchTicker string
  | Market string
  | CreateOrder string order_side int order_params
  | SetLeverage int string
  | Sleep

record exchange =
  fetch_balance :: "call list \<Rightarrow> exn + real"
  fetch_positions :: "call list \<Rightarrow> string list option \<Rightarrow> exn + position list"
  fetch_ticker :: "call list \<Rightarrow> string \<Rightarrow> exn + real"
  market :: "call list \<Rightarrow> string \<Rightarrow> exn + real"
  create_order :: "call list \<Rightarrow> string \<Rightarrow> order_side \<Rightarrow> int \<Rightarrow> order_params \<Rightarrow> exn + order"
  set_leverage_api :: "call list \<Rightarrow> int \<Rightarrow> string \<Rightarrow> exn + unit"

text \<open>\<^verbatim>\<open>get_account_balance\<close>: the free USDT balance, or 0.0 on any exception.\<close>

definition get_account_balance :: "exchange \<Rightarrow> call list \<Rightarrow> real \<times> call list" where
  "get_account_balance ex tr =
     (case fetch_balance ex tr of
        Inr usdt_balance \<Rightarrow> (usdt_balance, tr @ [FetchBalance])
      | Inl e \<Rightarrow> (0, tr @ [FetchBalance]))"

text \<open>\<^verbatim>\<open>get_current_positions\<close>: signed contracts per symbol, or the empty dictionary
  on any exception. A later record of a symbol overwrites an earlier one.\<close>

definition signed_position :: "(string \<times> real) list \<Rightarrow> position \<Rightarrow> (string \<times> real) list" where
  "signed_position current_positions pos =
     (if \<bar>pos_contracts pos\<bar> > 0 then
        (let contracts = (if pos_side pos = ''short'' then - \<bar>pos_contracts pos\<bar>
                          else pos_contracts pos)
         in if pos_symbol pos \<in> set (map fst current_positions)
            then map (\<lambda>(k, v). if k = pos_symbol pos then (k, contracts) else (k, v))
                   current_positions
            else current_positions @ [(pos_symbol pos, contracts)])
      else current_positions)"

definition get_current_positions ::
  "exchange \<Rightarrow> call list \<Rightarrow> (string \<times> real) list \<times> call list" where
  "get_current_positions ex tr =
     (case fetch_positions ex tr None of
        Inr positions \<Rightarrow> (foldl signed_position [] positions, tr @ [FetchPositions None])
      | Inl e \<Rightarrow> ([], tr @ [FetchPositions None]))"

section \<open>Order sizing and placement\<close>

text \<open>One round of the loop of \<^verbatim>\<open>place_order\<close>: \<^verbatim>\<open>quantity += 1\<close> for a positive
  quantity, \<^verbatim>\<open>quantity -= 1\<close> otherwise.\<close>

definition pad_step :: "real \<Rightarrow> real" where
  "pad_step qty = (if qty > 0 then float_add qty 1 else float_sub qty 1)"

text \<open>The loop of \<^verbatim>\<open>place_order\<close> that moves the quantity one unit away from zero
  while the notional value is below 5 USDT. The loop has no bound; a run that never
  leaves it has the value \<open>None\<close>.\<close>

partial_function (option) pad_loop :: "real \<Rightarrow> real \<Rightarrow> real option" where
  "pad_loop qty current_price =
     (if float_mul \<bar>qty\<bar> current_price < 5
      then pad_loop (pad_step qty) current_price
      else Some qty)"

text \<open>\<^verbatim>\<open>params.get('reduceOnly', False)\<close> as a truth value.\<close>

definition reduce_only :: "order_params \<Rightarrow> bool" where
  "reduce_only params = (case reduceOnly_param params of Some b \<Rightarrow> b | None \<Rightarrow> False)"

text \<open>\<^verbatim>\<open>not params\<close>: the dictionary is empty.\<close>

definition no_params :: "order_params \<Rightarrow> bool" where
  "no_params params = (positionSide_param params = None \<and> reduceOnly_param params = None)"

text \<open>The quantity after the minimum-notional adjustment of \<^verbatim>\<open>place_order\<close>.\<close>

definition adjust_quantity :: "real \<Rightarrow> real \<Rightarrow> order_params \<Rightarrow> real option" where
  "adjust_quantity qty current_price params =
     (let notional_value = float_mul \<bar>qty\<bar> current_price in
      if notional_value < 5 \<and> (no_params params \<or> \<not> reduce_only params)
      then pad_loop qty current_price
      else Some qty)"

text \<open>The quantity that \<^verbatim>\<open>place_order\<close> submits: the adjusted quantity through
  \<^verbatim>\<open>int(abs(quantity))\<close>.\<close>

definition order_quantity :: "real \<Rightarrow> real \<Rightarrow> order_params \<Rightarrow> int option" where
  "order_quantity qty current_price params =
     map_option (\<lambda>q. \<lfloor>\<bar>q\<bar>\<rfloor>) (adjust_quantity qty current_price params)"

fun contains :: "string \<Rightarrow> string \<Rightarrow> bool" where
  "contains sub [] = (sub = [])"
| "contains sub (c # cs) = (take (length sub) (c # cs) = sub \<or> contains sub cs)"

text \<open>The message that triggers the retry of the submission; \<open>CHR 0x27\<close> is the
  single quote.\<close>

definition float_message :: string where
  "float_message =
     CHR 0x27 # ''float'' @ CHR 0x27 # '' object cannot be interpreted as an integer''"

text \<open>The position side chosen when \<^verbatim>\<open>params\<close> has none.\<close>

definition detect_position_side :: "order_side \<Rightarrow> position option \<Rightarrow> position_side" where
  "detect_position_side sd current_position =
     (case sd of
        Buy \<Rightarrow> (case current_position of
                  Some pos \<Rightarrow> if pos_side pos = ''short'' then SHORT else LONG
                | None \<Rightarrow> LONG)
      | Sell \<Rightarrow> (case current_position of
                   Some pos \<Rightarrow> if pos_side pos = ''long'' then LONG else SHORT
                 | None \<Rightarrow> SHORT))"

text \<open>The order submission with its retry on the integer-conversion message; every
  other exception reaches the outer handler of \<^verbatim>\<open>place_order\<close>, which returns
  \<^verbatim>\<open>None\<close>.\<close>

definition submit_order ::
  "exchange \<Rightarrow> string \<Rightarrow> order_side \<Rightarrow> int \<Rightarrow> order_params \<Rightarrow> call list
     \<Rightarrow> order option \<times> call list" where
  "submit_order ex formatted_symbol sd qty params tr =
     (let c = CreateOrder formatted_symbol sd qty params in
      case create_order ex tr formatted_symbol sd qty params of
        Inr order \<Rightarrow> (Some order, tr @ [c])
      | Inl e \<Rightarrow>
          if contains float_message e
          then (case create_order ex (tr @ [c]) formatted_symbol sd qty params of
                  Inr order \<Rightarrow> (Some order, tr @ [c, c])
                | Inl e' \<Rightarrow> (None, tr @ [c, c]))
          else (None, tr @ [c]))"

text \<open>\<^verbatim>\<open>place_order\<close> after the quantity adjustment: positions, position side, market
  limits, truncation, minimum amount, submission.\<close>

definition place_adjusted_order ::
  "exchange \<Rightarrow> string \<Rightarrow> order_side \<Rightarrow> real \<Rightarrow> order_params \<Rightarrow> call list
     \<Rightarrow> order option \<times> call list" where
  "place_adjusted_order ex formatted_symbol sd qty params tr =
     (let tr1 = tr @ [FetchPositions (Some [formatted_symbol])] in
      case fetch_positions ex tr (Some [formatted_symbol]) of
        Inl e \<Rightarrow> (None, tr1)
      | Inr positions \<Rightarrow>
          (let current_position =
                 find (\<lambda>pos. pos_symbol pos = formatted_symbol \<and> \<bar>pos_contracts pos\<bar> > 0)
                   positions;
               params1 = (case positionSide_param params of
                            None \<Rightarrow> params\<lparr>positionSide_param :=
                                       Some (detect_position_side sd current_position)\<rparr>
                          | Some ps \<Rightarrow> params);
               tr2 = tr1 @ [Market formatted_symbol]
           in case market ex tr1 formatted_symbol of
                Inl e \<Rightarrow> (None, tr2)
              | Inr min_amount \<Rightarrow>
                  (let int_quantity = \<lfloor>\<bar>qty\<bar>\<rfloor> in
                   if of_int int_quantity < min_amount then (None, tr2)
                   else submit_order ex formatted_symbol sd int_quantity params1 tr2)))"

text \<open>\<^verbatim>\<open>place_order\<close>: the order record, or \<^verbatim>\<open>None\<close> when the order was skipped or
  any call raised. The outer \<open>None\<close> is a run that never returns.\<close>

definition place_order ::
  "exchange \<Rightarrow> string \<Rightarrow> order_side \<Rightarrow> real \<Rightarrow> order_params \<Rightarrow> call list
     \<Rightarrow> (order option \<times> call list) option" where
  "place_order ex symb sd qty params tr =
     (let formatted_symbol = format_symbol_for_binance symb;
          tr1 = tr @ [FetchTicker formatted_symbol] in
      case fetch_ticker ex tr formatted_symbol of
        Inl e \<Rightarrow> Some (None, tr1)
      | Inr current_price \<Rightarrow>
          (case adjust_quantity qty current_price params of
             None \<Rightarrow> None
           | Some qty1 \<Rightarrow>
               Some (place_adjusted_order ex formatted_symbol sd qty1 params tr1)))"

text \<open>\<^verbatim>\<open>set_leverage\<close>: the response, or \<^verbatim>\<open>None\<close> on any exception.\<close>

definition set_leverage :: "exchange \<Rightarrow> string \<Rightarrow> int \<Rightarrow> call list \<Rightarrow> unit option \<times> call list" where
  "set_leverage ex symb leverage tr =
     (let formatted_symbol = format_symbol_for_binance symb in
      case set_leverage_api ex tr leverage formatted_symbol of
        Inr response \<Rightarrow> (Some response, tr @ [SetLeverage leverage formatted_symbol])
      | Inl e \<Rightarrow> (None, tr @ [SetLeverage leverage formatted_symbol]))"

section \<open>Executing the plan\<close>

text \<open>The \<^verbatim>\<open>params\<close> that \<^verbatim>\<open>execute_trades\<close> passes for a trade:
  \<^verbatim>\<open>{'positionSide': trade['positionSide']}\<close>.\<close>

definition trade_params :: "trade \<Rightarrow> order_params" where
  "trade_params t = \<lparr>positionSide_param = Some (positionSide t), reduceOnly_param = None\<rparr>"

text \<open>One round of the execution loop up to the value of \<^verbatim>\<open>result\<close>: leverage, then
  the order.\<close>

definition execute_trade ::
  "exchange \<Rightarrow> trade \<Rightarrow> call list \<Rightarrow> (order option \<times> call list) option" where
  "execute_trade ex t tr =
     place_order ex (symbol t) (side t) (quantity t) (trade_params t)
       (snd (set_leverage ex (symbol t) 1 tr))"

text \<open>The execution loop of \<^verbatim>\<open>execute_trades\<close>: leverage, order, pause, for each
  trade in turn. The value of \<^verbatim>\<open>result\<close> of each round is collected.\<close>

fun execute_plan ::
  "exchange \<Rightarrow> trade list \<Rightarrow> call list \<Rightarrow> (order option list \<times> call list) option" where
  "execute_plan ex [] tr = Some ([], tr)"
| "execute_plan ex (t # plan) tr =
     (case execute_trade ex t tr of
        None \<Rightarrow> None
      | Some (result, tr1) \<Rightarrow>
          (case execute_plan ex plan (tr1 @ [Sleep]) of
             None \<Rightarrow> None
           | Some (results, tr2) \<Rightarrow> Some (result # results, tr2)))"

text \<open>\<^verbatim>\<open>execute_trades\<close>. An exception while the positions are fetched ends the
  function before a plan exists. The parameter \<^verbatim>\<open>leverage\<close> is not used by the body.\<close>

definition execute_trades ::
  "exchange \<Rightarrow> target_book \<Rightarrow> int \<Rightarrow> call list \<Rightarrow> (order option list \<times> call list) option" where
  "execute_trades ex target_positions leverage tr =
     (case fetch_positions ex tr None of
        Inl e \<Rightarrow> Some ([], tr @ [FetchPositions None])
      | Inr positions \<Rightarrow>
          execute_plan ex (trade_plan (current_positions_of positions) target_positions)
            (tr @ [FetchPositions None]))"

text \<open>\<^verbatim>\<open>run_daily_trade\<close> from its step 3 on, with the target positions read from the
  signal log and the executor built: balance check, execution, final position report.
  The value is the trace of exchange calls of the cycle.\<close>

definition run_daily_trade :: "exchange \<Rightarrow> target_book \<Rightarrow> call list \<Rightarrow> call list option" where
  "run_daily_trade ex target_positions tr =
     (case get_account_balance ex tr of
        (balance, tr1) \<Rightarrow>
          if balance \<le> 0 then Some tr1
          else (case execute_trades ex target_positions 1 tr1 of
                  None \<Rightarrow> None
                | Some (results, tr2) \<Rightarrow> Some (snd (get_current_positions ex tr2))))"

section \<open>Properties of double rounding\<close>

lemma round_half_even_ge:
  assumes "of_int k \<le> m"
  shows "k \<le> round_half_even m"
proof -
  from assms have "k \<le> \<lfloor>m\<rfloor>" by (simp add: le_floor_iff)
  thus ?thesis by (simp add: round_half_even_def Let_def)
qed

lemma round_half_even_le:
  assumes "m \<le> of_int k"
  shows "round_half_even m \<le> k"
proof -
  have f: "\<lfloor>m\<rfloor> \<le> k" using assms by (simp add: floor_le_iff)
  show ?thesis
  proof (cases "m = of_int \<lfloor>m\<rfloor>")
    case True
    hence "m - of_int \<lfloor>m\<rfloor> < 1 / 2" by simp
    with f show ?thesis by (simp add: round_half_even_def Let_def)
  next
    case False
    hence "of_int \<lfloor>m\<rfloor> < m" using of_int_floor_le[of m] by linarith
    with assms have "of_int \<lfloor>m\<rfloor> < (of_int k :: real)" by linarith
    hence "\<lfloor>m\<rfloor> < k" by simp
    thus ?thesis by (simp add: round_half_even_def Let_def)
  qed
qed

lemma floor_log_bounds:
  assumes "x \<noteq> 0"
  shows "2 powr of_int \<lfloor>log 2 \<bar>x\<bar>\<rfloor> \<le> \<bar>x\<bar>"
    and "\<bar>x\<bar> < 2 powr (of_int \<lfloor>log 2 \<bar>x\<bar>\<rfloor> + 1)"
proof -
  from assms have pos: "0 < \<bar>x\<bar>" by simp
  have "2 powr of_int \<lfloor>log 2 \<bar>x\<bar>\<rfloor> \<le> 2 powr log 2 \<bar>x\<bar>"
    by (rule powr_mono) simp_all
  thus "2 powr of_int \<lfloor>log 2 \<bar>x\<bar>\<rfloor> \<le> \<bar>x\<bar>" using pos by simp
  have "log 2 \<bar>x\<bar> < of_int \<lfloor>log 2 \<bar>x\<bar>\<rfloor> + 1" by linarith
  hence "2 powr log 2 \<bar>x\<bar> < 2 powr (of_int \<lfloor>log 2 \<bar>x\<bar>\<rfloor> + 1)"
    by (rule powr_less_mono) simp
  thus "\<bar>x\<bar> < 2 powr (of_int \<lfloor>log 2 \<bar>x\<bar>\<rfloor> + 1)" using pos by simp
qed

lemma powr_int_diff_is_int:
  assumes "e \<le> ed"
  shows "(2::real) powr of_int ed / 2 powr of_int e = of_int (2 ^ nat (ed - e))"
proof -
  have "(2::real) powr of_int ed / 2 powr of_int e = 2 powr (of_int ed - of_int e)"
    by (simp add: powr_diff)
  also have "of_int ed - of_int e = real (nat (ed - e))" using assms by simp
  also have "(2::real) powr real (nat (ed - e)) = 2 ^ nat (ed - e)"
    by (simp add: powr_realpow)
  finally show ?thesis by simp
qed

lemma big_exponent:
  assumes "x \<noteq> 0" and "ed < double_exponent x" and "- 1074 \<le> ed" and "\<bar>m\<bar> < 2 ^ 53"
  shows "2 powr (of_int (double_exponent x) + 52) \<le> \<bar>x\<bar>"
    and "\<bar>real_of_int m * 2 powr of_int ed\<bar> < 2 powr (of_int (double_exponent x) + 52)"
proof -
  let ?e = "double_exponent x"
  from assms(2,3) have e: "?e = \<lfloor>log 2 \<bar>x\<bar>\<rfloor> - 52" by (simp add: double_exponent_def max_def split: if_splits)
  hence "of_int ?e + 52 = (of_int \<lfloor>log 2 \<bar>x\<bar>\<rfloor> :: real)" by simp
  with floor_log_bounds(1)[OF assms(1)] show "2 powr (of_int ?e + 52) \<le> \<bar>x\<bar>" by simp
  have "\<bar>real_of_int m * 2 powr of_int ed\<bar> = \<bar>of_int m :: real\<bar> * 2 powr of_int ed"
    by (simp add: abs_mult)
  also have "\<dots> < 2 ^ 53 * 2 powr of_int ed"
  proof -
    from assms(4) have "\<bar>of_int m :: real\<bar> < 2 ^ 53"
      by (metis of_int_abs of_int_less_numeral_power_cancel_iff)
    thus ?thesis by simp
  qed
  also have "(2::real) ^ 53 * 2 powr of_int ed = 2 powr (53 + of_int ed)"
    by (simp add: powr_add powr_realpow[symmetric])
  also have "\<dots> \<le> 2 powr (of_int ?e + 52)"
    by (rule powr_mono) (use assms(2) in simp_all)
  finally show "\<bar>real_of_int m * 2 powr of_int ed\<bar> < 2 powr (of_int ?e + 52)" .
qed

lemma double_round_ge:
  assumes "is_double d" and "d \<le> x"
  shows "d \<le> double_round x"
proof (cases "x = 0")
  case True
  with assms(2) show ?thesis by (simp add: double_round_def)
next
  case False
  from assms(1) obtain m ed where m: "\<bar>m\<bar> < 2 ^ 53" "- 1074 \<le> ed"
    and d: "d = of_int m * 2 powr of_int ed" unfolding is_double_def by blast
  let ?e = "double_exponent x"
  let ?P = "(2::real) powr of_int ?e"
  have P: "0 < ?P" by simp
  have r: "double_round x = of_int (round_half_even (x / ?P)) * ?P"
    using False by (simp add: double_round_def)
  show ?thesis
  proof (cases "?e \<le> ed")
    case True
    define k where "k = m * 2 ^ nat (ed - ?e)"
    have "d / ?P = of_int m * (2 powr of_int ed / ?P)" by (simp add: d)
    also have "\<dots> = of_int k" unfolding powr_int_diff_is_int[OF True] by (simp add: k_def)
    finally have dk: "d / ?P = of_int k" .
    from assms(2) P have "d / ?P \<le> x / ?P" by (simp add: divide_right_mono)
    hence "k \<le> round_half_even (x / ?P)" unfolding dk by (rule round_half_even_ge)
    hence "(of_int k :: real) * ?P \<le> of_int (round_half_even (x / ?P)) * ?P"
      using P by simp
    moreover from dk P have "d = of_int k * ?P" by (simp add: field_simps)
    ultimately show ?thesis unfolding r by simp
  next
    case ne: False
    hence lt: "ed < ?e" by simp
    note b = big_exponent[OF False lt m(2) m(1)]
    from b d have dx: "\<bar>d\<bar> < \<bar>x\<bar>" by simp
    with assms(2) have xpos: "0 < x" by linarith
    with b(1) have "2 powr (of_int ?e + 52) \<le> x" by simp
    hence "2 powr (of_int ?e + 52) / ?P \<le> x / ?P" using P by (simp add: divide_right_mono)
    moreover have "(2::real) powr (of_int ?e + 52) / ?P = of_int (2 ^ 52)"
      by (simp add: powr_add powr_realpow[symmetric])
    ultimately have "of_int (2 ^ 52) \<le> x / ?P" by simp
    hence "2 ^ 52 \<le> round_half_even (x / ?P)" by (rule round_half_even_ge)
    hence "(of_int (2 ^ 52) :: real) \<le> of_int (round_half_even (x / ?P))"
      by (simp only: of_int_le_iff)
    hence "(of_int (2 ^ 52) :: real) * ?P \<le> of_int (round_half_even (x / ?P)) * ?P"
      using P by (intro mult_right_mono) simp_all
    moreover have "(of_int (2 ^ 52) :: real) * ?P = 2 powr (of_int ?e + 52)"
      by (simp add: powr_add powr_realpow[symmetric])
    ultimately have "2 powr (of_int ?e + 52) \<le> double_round x" unfolding r by (simp only:)
    with b(2) d show ?thesis by linarith
  qed
qed

lemma double_round_le:
  assumes "is_double d" and "x \<le> d"
  shows "double_round x \<le> d"
proof (cases "x = 0")
  case True
  with assms(2) show ?thesis by (simp add: double_round_def)
next
  case False
  from assms(1) obtain m ed where m: "\<bar>m\<bar> < 2 ^ 53" "- 1074 \<le> ed"
    and d: "d = of_int m * 2 powr of_int ed" unfolding is_double_def by blast
  let ?e = "double_exponent x"
  let ?P = "(2::real) powr of_int ?e"
  have P: "0 < ?P" by simp
  have r: "double_round x = of_int (round_half_even (x / ?P)) * ?P"
    using False by (simp add: double_round_def)
  show ?thesis
  proof (cases "?e \<le> ed")
    case True
    define k where "k = m * 2 ^ nat (ed - ?e)"
    have "d / ?P = of_int m * (2 powr of_int ed / ?P)" by (simp add: d)
    also have "\<dots> = of_int k" unfolding powr_int_diff_is_int[OF True] by (simp add: k_def)
    finally have dk: "d / ?P = of_int k" .
    from assms(2) P have "x / ?P \<le> d / ?P" by (simp add: divide_right_mono)
    hence "round_half_even (x / ?P) \<le> k" unfolding dk by (rule round_half_even_le)
    hence "(of_int (round_half_even (x / ?P)) :: real) \<le> of_int k"
      by (simp only: of_int_le_iff)
    hence "of_int (round_half_even (x / ?P)) * ?P \<le> (of_int k :: real) * ?P"
      using P by (intro mult_right_mono) simp_all
    moreover from dk P have "d = of_int k * ?P" by (simp add: field_simps)
    ultimately show ?thesis unfolding r by simp
  next
    case ne: False
    hence lt: "ed < ?e" by simp
    note b = big_exponent[OF False lt m(2) m(1)]
    from b d have dx: "\<bar>d\<bar> < \<bar>x\<bar>" by simp
    with assms(2) have xneg: "x < 0" by linarith
    with b(1) have "x \<le> - (2 powr (of_int ?e + 52))" by simp
    hence "x / ?P \<le> - (2 powr (of_int ?e + 52)) / ?P"
      by (rule divide_right_mono) simp
    moreover have "- ((2::real) powr (of_int ?e + 52)) / ?P = of_int (- (2 ^ 52))"
      by (simp add: powr_add powr_realpow[symmetric])
    ultimately have "x / ?P \<le> of_int (- (2 ^ 52))" by simp
    hence "round_half_even (x / ?P) \<le> - (2 ^ 52)" by (rule round_half_even_le)
    hence "(of_int (round_half_even (x / ?P)) :: real) \<le> of_int (- (2 ^ 52))"
      by (simp only: of_int_le_iff)
    hence "of_int (round_half_even (x / ?P)) * ?P \<le> (of_int (- (2 ^ 52)) :: real) * ?P"
      using P by (intro mult_right_mono) simp_all
    moreover have "(of_int (- (2 ^ 52)) :: real) * ?P = - (2 powr (of_int ?e + 52))"
      by (simp add: powr_add powr_realpow[symmetric])
    ultimately have "double_round x \<le> - (2 powr (of_int ?e + 52))" unfolding r by (simp only:)
    with b(2) d show ?thesis by linarith
  qed
qed

lemma double_round_exact:
  assumes "is_double d"
  shows "double_round d = d"
proof (rule antisym)
  show "double_round d \<le> d" using assms by (rule double_round_le) simp
  show "d \<le> double_round d" using assms by (rule double_round_ge) simp
qed

lemma is_double_of_int:
  assumes "\<bar>z\<bar> < 2 ^ 53"
  shows "is_double (of_int z)"
proof -
  have "real_of_int z = of_int z * 2 powr of_int 0" by simp
  with assms show ?thesis unfolding is_double_def by (intro exI[of _ z] exI[of _ 0]) simp
qed

lemma is_double_dyadic:
  assumes "\<bar>z\<bar> < 2 ^ 53" and "k \<le> 1074"
  shows "is_double (of_int z / 2 ^ k)"
proof -
  have "(2::real) powr of_int (- int k) = 1 / 2 ^ k"
    by (simp add: powr_minus powr_realpow divide_inverse)
  hence "real_of_int z / 2 ^ k = of_int z * 2 powr of_int (- int k)" by simp
  moreover have "- 1074 \<le> - int k" using assms(2) by simp
  ultimately show ?thesis using assms(1) unfolding is_double_def by blast
qed

lemma double_round_0: "double_round 0 = 0"
  by (simp add: double_round_def)

lemma double_round_of_int: "\<bar>z\<bar> < 2 ^ 53 \<Longrightarrow> double_round (of_int z) = of_int z"
  by (rule double_round_exact) (rule is_double_of_int)

lemma double_round_numeral:
  assumes "(numeral n :: int) < 2 ^ 53"
  shows "double_round (numeral n) = numeral n"
proof -
  from assms have "\<bar>numeral n :: int\<bar> < 2 ^ 53" by simp
  from double_round_of_int[OF this] show ?thesis by simp
qed

lemma double_round_neg_numeral:
  assumes "(numeral n :: int) < 2 ^ 53"
  shows "double_round (- numeral n) = - numeral n"
proof -
  from assms have "\<bar>- numeral n :: int\<bar> < 2 ^ 53" by simp
  from double_round_of_int[OF this] show ?thesis by simp
qed

lemma double_round_1: "double_round 1 = 1"
  using double_round_of_int[of 1] by simp

lemma double_round_half:
  assumes "(numeral n :: int) < 2 ^ 53"
  shows "double_round (numeral n / 2) = numeral n / 2"
proof -
  from assms have "\<bar>numeral n :: int\<bar> < 2 ^ 53" by simp
  from double_round_exact[OF is_double_dyadic[OF this, of 1]] show ?thesis by simp
qed

lemma double_round_ge_5:
  assumes "5 \<le> x"
  shows "5 \<le> double_round x"
proof -
  have "is_double (of_int 5)" by (rule is_double_of_int) simp
  hence "is_double 5" by simp
  from double_round_ge[OF this assms] show ?thesis .
qed

lemma double_round_quarter:
  assumes "(numeral n :: int) < 2 ^ 53"
  shows "double_round (numeral n / 4) = numeral n / 4"
proof -
  from assms have "\<bar>numeral n :: int\<bar> < 2 ^ 53" by simp
  from double_round_exact[OF is_double_dyadic[OF this, of 2]] show ?thesis by simp
qed

lemma double_round_sixteenth:
  assumes "(numeral n :: int) < 2 ^ 53"
  shows "double_round (numeral n / 16) = numeral n / 16"
proof -
  from assms have "\<bar>numeral n :: int\<bar> < 2 ^ 53" by simp
  from double_round_exact[OF is_double_dyadic[OF this, of 4]] show ?thesis by simp
qed

lemma is_double_minus:
  assumes "is_double d"
  shows "is_double (- d)"
proof -
  from assms obtain m e where "\<bar>m\<bar> < 2 ^ 53" "- 1074 \<le> e"
    "d = real_of_int m * 2 powr real_of_int e" unfolding is_double_def by blast
  hence "\<bar>- m\<bar> < 2 ^ 53 \<and> - 1074 \<le> e \<and> - d = real_of_int (- m) * 2 powr real_of_int e"
    by simp
  thus ?thesis unfolding is_double_def by blast
qed

lemmas double_round_eval =
  double_round_0 double_round_1 double_round_numeral double_round_neg_numeral
  double_round_half double_round_quarter double_round_sixteenth
  float_add_def float_sub_def float_mul_def

lemma is_double_pow2_53: "is_double (2 ^ 53)"
proof -
  have "(2::real) ^ 53 = real_of_int (2 ^ 52) * 2 powr real_of_int 1" by simp
  moreover have "\<bar>2 ^ 52 :: int\<bar> < 2 ^ 53" by simp
  moreover have "- 1074 \<le> (1::int)" by simp
  ultimately show ?thesis unfolding is_double_def by blast
qed

lemma is_double_of_nat:
  assumes "n \<le> 2 ^ 53"
  shows "is_double (real n)"
proof (cases "n = 2 ^ 53")
  case True
  hence "real n = 2 ^ 53" by (simp only: of_nat_power of_nat_numeral)
  thus ?thesis using is_double_pow2_53 by (simp only:)
next
  case False
  with assms have "n < 2 ^ 53" by (simp only: le_neq_implies_less)
  hence "int n < 2 ^ 53" by (simp only: of_nat_less_numeral_power_cancel_iff)
  hence "\<bar>int n\<bar> < 2 ^ 53" by (simp only: abs_of_nat)
  from is_double_of_int[OF this] show ?thesis by (simp only: of_int_of_nat_eq)
qed

section \<open>Properties of the plan\<close>

lemma concat_map_empty: "(\<And>x. x \<in> set xs \<Longrightarrow> f x = []) \<Longrightarrow> concat (map f xs) = []"
  by (induction xs) auto

lemma clear_instrument_quantity:
  "a \<in> set (clear_instrument tgt e) \<Longrightarrow> 0 < quantity a"
  by (cases e) (auto simp: clear_instrument_def split: if_splits)

lemma adjust_instrument_quantity:
  "a \<in> set (adjust_instrument cur e) \<Longrightarrow> 0 < quantity a"
  by (cases e) (auto simp: adjust_instrument_def Let_def split: if_splits)

lemma clear_instrument_symbol:
  "a \<in> set (clear_instrument tgt (k, info)) \<Longrightarrow> symbol a = k \<and> action a = Close"
  by (auto simp: clear_instrument_def split: if_splits)

lemma adjust_instrument_symbol:
  "a \<in> set (adjust_instrument cur (s, q)) \<Longrightarrow> symbol a = s"
  by (auto simp: adjust_instrument_def Let_def split: if_splits)

lemma clear_step_all_close:
  "a \<in> set (concat (map (clear_instrument tgt) cur)) \<Longrightarrow> action a = Close"
  by (auto dest: clear_instrument_symbol)

lemma adjust_step_symbols:
  "a \<in> set (concat (map (adjust_instrument cur) tgt)) \<Longrightarrow> symbol a \<in> set (map fst tgt)"
  by (force dest: adjust_instrument_symbol)

lemma sorted_wrt_all_close:
  "(\<And>a. a \<in> set xs \<Longrightarrow> action a = Close) \<Longrightarrow> sorted_wrt adjust_last xs"
  by (induction xs) (auto simp: adjust_last_def)

lemma adjust_instrument_sorted: "sorted_wrt adjust_last (adjust_instrument cur e)"
  by (cases e) (simp add: adjust_instrument_def Let_def adjust_last_def)

lemma adjust_step_sorted:
  "distinct (map fst tgt) \<Longrightarrow> sorted_wrt adjust_last (concat (map (adjust_instrument cur) tgt))"
proof (induction tgt)
  case Nil
  show ?case by simp
next
  case (Cons e tgt)
  obtain s q where e: "e = (s, q)" by (cases e)
  from Cons.prems have fresh: "s \<notin> set (map fst tgt)" and d: "distinct (map fst tgt)"
    by (simp_all add: e)
  have "adjust_last a b" if "a \<in> set (adjust_instrument cur e)"
    and "b \<in> set (concat (map (adjust_instrument cur) tgt))" for a b
  proof -
    from that(1) have "symbol a = s" unfolding e by (rule adjust_instrument_symbol)
    moreover from that(2) have "symbol b \<in> set (map fst tgt)" by (rule adjust_step_symbols)
    ultimately have "symbol a \<noteq> symbol b" using fresh by metis
    thus ?thesis by (simp add: adjust_last_def)
  qed
  with Cons.IH[OF d] adjust_instrument_sorted[of cur e] show ?case
    by (simp add: sorted_wrt_append)
qed

lemma plan_sorted:
  assumes "distinct (map fst tgt)"
  shows "sorted_wrt adjust_last (trade_plan cur tgt)"
proof -
  have "sorted_wrt adjust_last (concat (map (clear_instrument tgt) cur))"
    by (rule sorted_wrt_all_close) (rule clear_step_all_close)
  moreover have "adjust_last a b" if "a \<in> set (concat (map (clear_instrument tgt) cur))" for a b
    using clear_step_all_close[OF that] by (simp add: adjust_last_def)
  ultimately show ?thesis
    unfolding trade_plan_def using adjust_step_sorted[OF assms]
    by (simp add: sorted_wrt_append)
qed

lemma plan_C:
  "trade_plan [(''BTCUSDT'', default_info(LONG := 3))] [(''BTCUSDT'', - 4)] =
     [\<lparr>symbol = ''BTCUSDT'', side = Sell, quantity = 3, positionSide = LONG, action = Close\<rparr>,
      \<lparr>symbol = ''BTCUSDT'', side = Sell, quantity = 4, positionSide = SHORT, action = Adjust\<rparr>]"
  by (simp add: trade_plan_def clear_instrument_def adjust_instrument_def current_info_of_def
      format_symbol_for_binance_def endswith_def default_info_def double_round_eval)

lemma filter_clear_other:
  "k' \<noteq> k \<Longrightarrow> filter (\<lambda>a. symbol a = k) (clear_instrument tgt (k', info)) = []"
  by (auto simp: filter_empty_conv dest: clear_instrument_symbol)

lemma filter_clear_same:
  "filter (\<lambda>a. symbol a = k) (clear_instrument tgt (k, info)) = clear_instrument tgt (k, info)"
  by (auto simp: filter_id_conv dest: clear_instrument_symbol)

lemma filter_clear_step_absent:
  "k \<notin> set (map fst cur) \<Longrightarrow>
   filter (\<lambda>a. symbol a = k) (concat (map (clear_instrument tgt) cur)) = []"
  by (induction cur) (auto simp: filter_clear_other)

lemma filter_clear_step:
  "distinct (map fst cur) \<Longrightarrow> (k, info) \<in> set cur \<Longrightarrow>
   filter (\<lambda>a. symbol a = k) (concat (map (clear_instrument tgt) cur)) =
     clear_instrument tgt (k, info)"
proof (induction cur)
  case Nil
  then show ?case by simp
next
  case (Cons e cur)
  obtain k' info' where e: "e = (k', info')" by (cases e)
  show ?case
  proof (cases "k' = k")
    case True
    with Cons.prems e have "info' = info" and "k \<notin> set (map fst cur)"
      by (auto simp: rev_image_eqI)
    thus ?thesis using True e by (simp add: filter_clear_same filter_clear_step_absent)
  next
    case False
    with Cons.prems e have "(k, info) \<in> set cur" "distinct (map fst cur)" by auto
    with Cons.IH False e show ?thesis by (simp add: filter_clear_other)
  qed
qed

lemma filter_adjust_step_absent:
  "k \<notin> set (map fst tgt) \<Longrightarrow>
   filter (\<lambda>a. symbol a = k) (concat (map (adjust_instrument cur) tgt)) = []"
  unfolding filter_empty_conv using adjust_step_symbols by blast

lemma has_adjust_instrument:
  "(\<exists>a \<in> set (adjust_instrument cur (s, q)). action a = Adjust) \<longleftrightarrow>
     (q \<noteq> 0 \<and> \<bar>float_sub \<bar>q\<bar> (current_info_of cur s (if q > 0 then LONG else SHORT))\<bar> > 1)"
  by (auto simp: adjust_instrument_def Let_def)

lemma record_position_keys:
  assumes "distinct (map fst cur)"
  shows "distinct (map fst (record_position cur pos))"
proof (cases "\<bar>pos_contracts pos\<bar> > 0")
  case False
  with assms show ?thesis by (simp add: record_position_def)
next
  case True
  define s where "s = format_symbol_for_binance (pos_symbol pos)"
  define g :: "string \<times> positions_info \<Rightarrow> string \<times> positions_info"
    where "g = (\<lambda>(k, v). if k = s then (k, v(pos_positionSide pos := pos_contracts pos))
                           else (k, v))"
  have m: "map fst (map g xs) = map fst xs" for xs
    by (induction xs) (auto simp: g_def)
  have "record_position cur pos =
          map g (if s \<notin> set (map fst cur) then cur @ [(s, default_info)] else cur)"
    using True by (simp add: record_position_def Let_def g_def s_def)
  hence "map fst (record_position cur pos) =
          map fst (if s \<notin> set (map fst cur) then cur @ [(s, default_info)] else cur)"
    by (simp only: m)
  with assms show ?thesis by auto
qed

lemma current_positions_distinct: "distinct (map fst (current_positions_of positions))"
proof -
  have "distinct (map fst cur) \<Longrightarrow> distinct (map fst (foldl record_position cur positions))"
    for cur
    by (induction positions arbitrary: cur) (simp_all add: record_position_keys)
  from this [of "[]"] show ?thesis by (simp add: current_positions_of_def)
qed

lemma float_sub_self: "float_sub q q = 0"
  by (simp add: float_sub_def double_round_0)

lemma plan_idempotent_canonical:
  assumes "book_equals_target cur tgt"
    and "\<And>s. s \<in> set (map fst tgt) \<Longrightarrow> format_symbol_for_binance s = s"
  shows "trade_plan cur tgt = []"
proof -
  have keys: "set (map (format_symbol_for_binance \<circ> fst) tgt) = set (map fst tgt)"
    using assms(2) by (auto simp: image_iff) force
  have "clear_instrument tgt e = []" if "e \<in> set cur" for e
  proof -
    obtain k info where e: "e = (k, info)" by (cases e)
    with that assms(1) have "k \<in> set (map fst tgt) \<or> (info LONG = 0 \<and> info SHORT = 0)"
      unfolding book_equals_target_def keys list_all_iff by blast
    thus ?thesis unfolding e by (auto simp: clear_instrument_def)
  qed
  moreover have "adjust_instrument cur e = []" if "e \<in> set tgt" for e
  proof -
    obtain s q where e: "e = (s, q)" by (cases e)
    with that assms(1) have
      "let info = current_info_of cur s in
         if q > 0 then info LONG = q \<and> info SHORT = 0
         else if q < 0 then info SHORT = \<bar>q\<bar> \<and> info LONG = 0
         else info LONG = 0 \<and> info SHORT = 0"
      unfolding book_equals_target_def list_all_iff by blast
    thus ?thesis unfolding e
      by (simp add: adjust_instrument_def Let_def float_sub_self split: if_splits)
  qed
  ultimately show ?thesis
    unfolding trade_plan_def by (simp add: concat_map_empty)
qed

text \<open>
  Claim C1. Planning is not idempotent when a target key is not in the form that
  \<^verbatim>\<open>format_symbol_for_binance\<close> produces. The current book holds 10 long of
  \<^verbatim>\<open>BTCUSDT\<close> and the target is 10 of \<^verbatim>\<open>BTC/USDT\<close>: the book equals the target, step 2
  finds the current entry through the formatted key and plans nothing, and step 1,
  which looks the current key up among the unformatted target keys, closes the position.
  With target keys in formatted form the plan is empty (\<open>plan_idempotent_canonical\<close>).
\<close>

theorem plan_not_idempotent_for_unformatted_key:
  "book_equals_target [(''BTCUSDT'', default_info(LONG := 10))] [(''BTC/USDT'', 10)] \<and>
   trade_plan [(''BTCUSDT'', default_info(LONG := 10))] [(''BTC/USDT'', 10)] =
     [\<lparr>symbol = ''BTCUSDT'', side = Sell, quantity = 10, positionSide = LONG, action = Close\<rparr>]"
  by (simp add: book_equals_target_def trade_plan_def clear_instrument_def adjust_instrument_def
      current_info_of_def format_symbol_for_binance_def endswith_def default_info_def
      double_round_eval)

text \<open>
  Claim C2. Every action of the plan, close or adjust, has a strictly positive quantity.
\<close>

theorem plan_quantities_positive:
  "\<forall>a \<in> set (trade_plan cur tgt). 0 < quantity a"
  unfolding trade_plan_def
  by (auto dest: clear_instrument_quantity adjust_instrument_quantity)

theorem plan_quantities_positive_witness:
  "trade_plan [(''BTCUSDT'', default_info(LONG := 3))] [(''BTCUSDT'', - 4)] =
     [\<lparr>symbol = ''BTCUSDT'', side = Sell, quantity = 3, positionSide = LONG, action = Close\<rparr>,
      \<lparr>symbol = ''BTCUSDT'', side = Sell, quantity = 4, positionSide = SHORT, action = Adjust\<rparr>] \<and>
   0 < quantity (trade_plan [(''BTCUSDT'', default_info(LONG := 3))] [(''BTCUSDT'', - 4)] ! 0) \<and>
   0 < quantity (trade_plan [(''BTCUSDT'', default_info(LONG := 3))] [(''BTCUSDT'', - 4)] ! 1)"
  using plan_quantities_positive [of "[(''BTCUSDT'', default_info(LONG := 3))]" "[(''BTCUSDT'', - 4)]"]
  by (simp add: trade_plan_def clear_instrument_def adjust_instrument_def current_info_of_def
      format_symbol_for_binance_def endswith_def default_info_def double_round_eval)

text \<open>
  Claim C3. Within the actions of one symbol, a close action on the side opposite to
  an adjust action comes before that adjust action. The target book is a dictionary,
  so its keys are distinct.
\<close>

theorem close_precedes_adjust:
  assumes "distinct (map fst tgt)"
    and "i < length (trade_plan cur tgt)" and "j < length (trade_plan cur tgt)"
    and "symbol (trade_plan cur tgt ! i) = symbol (trade_plan cur tgt ! j)"
    and "action (trade_plan cur tgt ! i) = Close"
    and "action (trade_plan cur tgt ! j) = Adjust"
    and "positionSide (trade_plan cur tgt ! i) \<noteq> positionSide (trade_plan cur tgt ! j)"
  shows "i < j"
proof (rule ccontr)
  assume "\<not> i < j"
  moreover from assms(5,6) have "i \<noteq> j" by auto
  ultimately have "j < i" by simp
  with plan_sorted[OF assms(1), of cur] assms(2)
  have "adjust_last (trade_plan cur tgt ! j) (trade_plan cur tgt ! i)"
    by (simp add: sorted_wrt_iff_nth_less)
  with assms(4,5,6) show False by (simp add: adjust_last_def)
qed

theorem close_precedes_adjust_witness:
  "distinct (map fst [(''BTCUSDT'', - 4 :: real)]) \<and>
   action (trade_plan [(''BTCUSDT'', default_info(LONG := 3))] [(''BTCUSDT'', - 4)] ! 0) = Close \<and>
   action (trade_plan [(''BTCUSDT'', default_info(LONG := 3))] [(''BTCUSDT'', - 4)] ! 1) = Adjust \<and>
   positionSide (trade_plan [(''BTCUSDT'', default_info(LONG := 3))] [(''BTCUSDT'', - 4)] ! 0) = LONG \<and>
   positionSide (trade_plan [(''BTCUSDT'', default_info(LONG := 3))] [(''BTCUSDT'', - 4)] ! 1) = SHORT \<and>
   (0::nat) < 1"
  using close_precedes_adjust [of "[(''BTCUSDT'', - 4)]" 0 "[(''BTCUSDT'', default_info(LONG := 3))]" 1]
  by (simp add: plan_C)

text \<open>
  Claim C4. A symbol of the current book that is not a key of the target book gets
  exactly one close action for each nonzero side and no adjust action: its actions in
  the plan are the close of the long side, if nonzero, followed by the close of the
  short side, if nonzero. The magnitudes of a position book are not negative, and the
  current book is a dictionary.
\<close>

theorem absent_instrument_closed:
  assumes "distinct (map fst cur)" and "(k, info) \<in> set cur"
    and "k \<notin> set (map fst tgt)"
    and "0 \<le> info LONG" and "0 \<le> info SHORT"
  shows "filter (\<lambda>a. symbol a = k) (trade_plan cur tgt) =
           (if info LONG \<noteq> 0
            then [\<lparr>symbol = k, side = Sell, quantity = info LONG,
                   positionSide = LONG, action = Close\<rparr>]
            else []) @
           (if info SHORT \<noteq> 0
            then [\<lparr>symbol = k, side = Buy, quantity = info SHORT,
                   positionSide = SHORT, action = Close\<rparr>]
            else [])"
proof -
  have "filter (\<lambda>a. symbol a = k) (trade_plan cur tgt) = clear_instrument tgt (k, info)"
    unfolding trade_plan_def
    by (simp add: filter_clear_step[OF assms(1,2)] filter_adjust_step_absent[OF assms(3)])
  also have "\<dots> = (if info LONG \<noteq> 0
            then [\<lparr>symbol = k, side = Sell, quantity = info LONG,
                   positionSide = LONG, action = Close\<rparr>]
            else []) @
           (if info SHORT \<noteq> 0
            then [\<lparr>symbol = k, side = Buy, quantity = info SHORT,
                   positionSide = SHORT, action = Close\<rparr>]
            else [])"
    using assms(3,4,5) by (auto simp: clear_instrument_def)
  finally show ?thesis .
qed

theorem absent_instrument_closed_witness:
  "distinct (map fst (current_positions_of
      [\<lparr>pos_symbol = ''ETH/USDT:USDT'', pos_contracts = 5, pos_side = ''long'',
        pos_positionSide = LONG\<rparr>])) \<and>
   (''ETHUSDT'', default_info(LONG := 5)) \<in> set (current_positions_of
      [\<lparr>pos_symbol = ''ETH/USDT:USDT'', pos_contracts = 5, pos_side = ''long'',
        pos_positionSide = LONG\<rparr>]) \<and>
   ''ETHUSDT'' \<notin> set (map fst [(''BTCUSDT'', 10 :: real)]) \<and>
   filter (\<lambda>a. symbol a = ''ETHUSDT'') (trade_plan (current_positions_of
      [\<lparr>pos_symbol = ''ETH/USDT:USDT'', pos_contracts = 5, pos_side = ''long'',
        pos_positionSide = LONG\<rparr>]) [(''BTCUSDT'', 10)]) =
     [\<lparr>symbol = ''ETHUSDT'', side = Sell, quantity = 5, positionSide = LONG, action = Close\<rparr>]"
proof -
  have b: "current_positions_of
      [\<lparr>pos_symbol = ''ETH/USDT:USDT'', pos_contracts = 5, pos_side = ''long'',
        pos_positionSide = LONG\<rparr>] = [(''ETHUSDT'', default_info(LONG := 5))]"
    by (simp add: current_positions_of_def record_position_def format_symbol_for_binance_def
        endswith_def)
  show ?thesis
    unfolding b
    using absent_instrument_closed [of "[(''ETHUSDT'', default_info(LONG := 5))]" "''ETHUSDT''"
        "default_info(LONG := 5)" "[(''BTCUSDT'', 10)]"]
    by (simp add: default_info_def)
qed

text \<open>
  Claim C5, as the code has it. The threshold is the constant 1 written in the body of
  \<^verbatim>\<open>execute_trades\<close>, which has no threshold parameter: a targeted symbol with a
  nonzero target gets an adjust action exactly when the difference between the
  magnitude of the target and the current magnitude of the same side, as the double
  subtraction computes it, is more than 1 in absolute value, and a symbol with target
  zero gets none.
\<close>

theorem adjust_iff_threshold_one:
  assumes "distinct (map fst tgt)" and "(s, q) \<in> set tgt"
  shows "(\<exists>a \<in> set (trade_plan cur tgt). symbol a = s \<and> action a = Adjust) \<longleftrightarrow>
         (q \<noteq> 0 \<and>
          \<bar>float_sub \<bar>q\<bar> (current_info_of cur s (if q > 0 then LONG else SHORT))\<bar> > 1)"
proof -
  have "(\<exists>a \<in> set (trade_plan cur tgt). symbol a = s \<and> action a = Adjust) \<longleftrightarrow>
        (\<exists>a \<in> set (adjust_instrument cur (s, q)). action a = Adjust)"
  proof
    assume "\<exists>a \<in> set (trade_plan cur tgt). symbol a = s \<and> action a = Adjust"
    then obtain a where a: "a \<in> set (trade_plan cur tgt)" "symbol a = s" "action a = Adjust"
      by blast
    from a(1,3) have "a \<in> set (concat (map (adjust_instrument cur) tgt))"
      unfolding trade_plan_def using clear_step_all_close[of a tgt cur] by auto
    then obtain e where e: "e \<in> set tgt" "a \<in> set (adjust_instrument cur e)" by auto
    obtain s' q' where e': "e = (s', q')" by (cases e)
    with e(2) a(2) have "s' = s" by (auto dest: adjust_instrument_symbol)
    with e(1) e' assms have "q' = q" by (meson eq_key_imp_eq_value)
    with e(2) e' \<open>s' = s\<close> a(3) show "\<exists>a \<in> set (adjust_instrument cur (s, q)). action a = Adjust"
      by blast
  next
    assume "\<exists>a \<in> set (adjust_instrument cur (s, q)). action a = Adjust"
    then obtain a where a: "a \<in> set (adjust_instrument cur (s, q))" "action a = Adjust" by blast
    from a(1) have "symbol a = s" by (rule adjust_instrument_symbol)
    moreover from a(1) assms(2) have "a \<in> set (trade_plan cur tgt)"
      unfolding trade_plan_def by auto
    ultimately show "\<exists>a \<in> set (trade_plan cur tgt). symbol a = s \<and> action a = Adjust"
      using a(2) by blast
  qed
  thus ?thesis by (simp only: has_adjust_instrument)
qed

theorem adjust_iff_threshold_one_witness:
  "distinct (map fst [(''BTCUSDT'', 10 :: real)]) \<and>
   (''BTCUSDT'', 10) \<in> set [(''BTCUSDT'', 10 :: real)] \<and>
   \<bar>float_sub \<bar>10\<bar> (current_info_of [(''BTCUSDT'', default_info(LONG := 7))] ''BTCUSDT'' LONG)\<bar>
     > 1 \<and>
   (\<exists>a \<in> set (trade_plan [(''BTCUSDT'', default_info(LONG := 7))] [(''BTCUSDT'', 10)]).
      symbol a = ''BTCUSDT'' \<and> action a = Adjust)"
  using adjust_iff_threshold_one [of "[(''BTCUSDT'', 10)]" "''BTCUSDT''" 10
      "[(''BTCUSDT'', default_info(LONG := 7))]"]
  by (simp add: current_info_of_def format_symbol_for_binance_def endswith_def default_info_def double_round_eval)

text \<open>
  With a threshold of one half, a long position of 9.25 and a target of 10 differ by
  0.75, more than the threshold, and the plan is empty all the same: the body compares
  the difference with 1.
\<close>

theorem epsilon_not_configurable_counterexample:
  "\<bar>float_sub 10 (current_info_of [(''BTCUSDT'', default_info(LONG := 37 / 4))] ''BTCUSDT'' LONG)\<bar>
     > 1 / 2 \<and>
   trade_plan [(''BTCUSDT'', default_info(LONG := 37 / 4))] [(''BTCUSDT'', 10)] = []"
  by (simp add: trade_plan_def clear_instrument_def adjust_instrument_def current_info_of_def
      format_symbol_for_binance_def endswith_def default_info_def double_round_eval)

section \<open>Properties of order sizing\<close>

lemma pad_loop_exit: "pad_loop q p = Some y \<Longrightarrow> \<not> float_mul \<bar>y\<bar> p < 5"
  by (rule pad_loop.raw_induct[where P = "\<lambda>q p y. \<not> float_mul \<bar>y\<bar> p < 5"])
     (auto split: if_splits)

lemma pad_loop_diverges:
  assumes "p \<le> 0"
  shows "pad_loop q p = None"
proof (cases "pad_loop q p")
  case None
  then show ?thesis .
next
  case (Some y)
  from assms have "\<bar>y\<bar> * p \<le> 0" by (simp add: mult_nonneg_nonpos)
  moreover have "is_double 0" using is_double_of_int[of 0] by simp
  ultimately have "double_round (\<bar>y\<bar> * p) \<le> 0" by (intro double_round_le)
  hence "float_mul \<bar>y\<bar> p < 5" by (simp add: float_mul_def)
  with pad_loop_exit[OF Some] show ?thesis by simp
qed

lemma pad_loop_first_exit:
  assumes "5 \<le> float_mul \<bar>(pad_step ^^ n) q\<bar> p"
    and "\<And>k. k < n \<Longrightarrow> float_mul \<bar>(pad_step ^^ k) q\<bar> p < 5"
  shows "pad_loop q p = Some ((pad_step ^^ n) q)"
  using assms
proof (induction n arbitrary: q)
  case 0
  then show ?case by (subst pad_loop.simps) simp
next
  case (Suc n)
  from Suc.prems(2)[of 0] have "float_mul \<bar>q\<bar> p < 5" by simp
  hence "pad_loop q p = pad_loop (pad_step q) p" by (subst pad_loop.simps) simp
  also have "\<dots> = Some ((pad_step ^^ n) (pad_step q))"
  proof (rule Suc.IH)
    show "5 \<le> float_mul \<bar>(pad_step ^^ n) (pad_step q)\<bar> p"
      using Suc.prems(1) by (simp add: funpow_swap1)
    show "float_mul \<bar>(pad_step ^^ k) (pad_step q)\<bar> p < 5" if "k < n" for k
      using Suc.prems(2)[of "Suc k"] that by (simp add: funpow_swap1)
  qed
  finally show ?case by (simp add: funpow_swap1)
qed

lemma pad_step_up:
  assumes "0 < q" and "real k \<le> q" and "Suc k \<le> 2 ^ 53"
  shows "real (Suc k) \<le> pad_step q"
proof -
  from assms(2) have "real (Suc k) \<le> q + 1" by simp
  from double_round_ge[OF is_double_of_nat[OF assms(3)] this] assms(1)
  show ?thesis by (simp add: pad_step_def float_add_def)
qed

lemma pad_step_down:
  assumes "q \<le> 0" and "q \<le> - real k" and "Suc k \<le> 2 ^ 53"
  shows "pad_step q \<le> - real (Suc k)"
proof -
  from assms(2) have "q - 1 \<le> - real (Suc k)" by simp
  from double_round_le[OF is_double_minus[OF is_double_of_nat[OF assms(3)]] this] assms(1)
  show ?thesis by (simp add: pad_step_def float_sub_def)
qed

lemma pad_steps_grow:
  assumes "k \<le> 2 ^ 53"
  shows "real k \<le> \<bar>(pad_step ^^ k) q\<bar>"
proof (cases "0 < q")
  case True
  have "0 < (pad_step ^^ k) q \<and> real k \<le> (pad_step ^^ k) q" using assms
  proof (induction k)
    case 0
    with True show ?case by simp
  next
    case (Suc k)
    hence ih: "0 < (pad_step ^^ k) q" "real k \<le> (pad_step ^^ k) q" by simp_all
    from pad_step_up[OF ih Suc.prems] have "real (Suc k) \<le> (pad_step ^^ Suc k) q" by simp
    moreover have "0 < real (Suc k)" by simp
    ultimately show ?case by linarith
  qed
  thus ?thesis by simp
next
  case False
  have "(pad_step ^^ k) q \<le> 0 \<and> (pad_step ^^ k) q \<le> - real k" using assms
  proof (induction k)
    case 0
    with False show ?case by simp
  next
    case (Suc k)
    hence ih: "(pad_step ^^ k) q \<le> 0" "(pad_step ^^ k) q \<le> - real k" by simp_all
    from pad_step_down[OF ih Suc.prems] have "(pad_step ^^ Suc k) q \<le> - real (Suc k)" by simp
    moreover have "- real (Suc k) \<le> 0" by simp
    ultimately show ?case by linarith
  qed
  thus ?thesis by simp
qed

lemma pad_loop_returns:
  assumes "5 \<le> p * 2 ^ 53"
  shows "\<exists>n. n \<le> nat \<lceil>5 / p\<rceil> \<and> pad_loop q p = Some ((pad_step ^^ n) q) \<and>
             5 \<le> float_mul \<bar>(pad_step ^^ n) q\<bar> p \<and>
             (\<forall>k<n. float_mul \<bar>(pad_step ^^ k) q\<bar> p < 5)"
proof -
  have p: "0 < p" using assms by (simp add: zero_less_mult_iff) 
  define N where "N = nat \<lceil>5 / p\<rceil>"
  define stops where "stops = (\<lambda>n. 5 \<le> float_mul \<bar>(pad_step ^^ n) q\<bar> p)"
  from assms p have "5 / p \<le> 2 ^ 53" by (simp add: pos_divide_le_eq mult.commute)
  hence "\<lceil>5 / p\<rceil> \<le> 2 ^ 53" by (simp add: ceiling_le_iff)
  hence N53: "N \<le> 2 ^ 53" unfolding N_def by (simp add: nat_le_iff)
  have "5 / p \<le> real N" unfolding N_def by (simp add: of_nat_nat le_of_int_ceiling p less_imp_le)
  also have "\<dots> \<le> \<bar>(pad_step ^^ N) q\<bar>" by (rule pad_steps_grow[OF N53])
  finally have "5 \<le> \<bar>(pad_step ^^ N) q\<bar> * p" using p by (simp add: pos_divide_le_eq)
  hence stN: "stops N" unfolding stops_def float_mul_def by (rule double_round_ge_5)
  define n where "n = (LEAST n. stops n)"
  have 1: "stops n" unfolding n_def using stN by (rule LeastI)
  have 2: "n \<le> N" unfolding n_def using stN by (rule Least_le)
  have 3: "\<not> stops k" if "k < n" for k using that unfolding n_def by (rule not_less_Least)
  hence below: "float_mul \<bar>(pad_step ^^ k) q\<bar> p < 5" if "k < n" for k
    using that unfolding stops_def by (simp add: not_le)
  from 1 have reached: "5 \<le> float_mul \<bar>(pad_step ^^ n) q\<bar> p" unfolding stops_def .
  from pad_loop_first_exit[OF reached below] have "pad_loop q p = Some ((pad_step ^^ n) q)" .
  with reached 2 below show ?thesis unfolding N_def by blast
qed

lemma adjust_quantity_returns:
  assumes "5 \<le> p * 2 ^ 53" and "\<not> reduce_only params"
  shows "\<exists>n. n \<le> nat \<lceil>5 / p\<rceil> \<and> adjust_quantity q p params = Some ((pad_step ^^ n) q) \<and>
             5 \<le> float_mul \<bar>(pad_step ^^ n) q\<bar> p \<and>
             (\<forall>k<n. float_mul \<bar>(pad_step ^^ k) q\<bar> p < 5)"
proof (cases "float_mul \<bar>q\<bar> p < 5")
  case True
  with assms(2) have "adjust_quantity q p params = pad_loop q p"
    by (simp add: adjust_quantity_def)
  with pad_loop_returns[OF assms(1), of q] show ?thesis by simp
next
  case False
  hence "adjust_quantity q p params = Some q" by (simp add: adjust_quantity_def)
  with False show ?thesis by (intro exI[of _ 0]) simp
qed

section \<open>Properties of the execution\<close>

lemma execute_plan_append:
  "execute_plan ex (xs @ ys) tr =
     (case execute_plan ex xs tr of
        None \<Rightarrow> None
      | Some (rs, tr1) \<Rightarrow>
          (case execute_plan ex ys tr1 of
             None \<Rightarrow> None
           | Some (rs', tr2) \<Rightarrow> Some (rs @ rs', tr2)))"
  by (induction xs arbitrary: tr) (auto split: option.splits)

lemma rejected_order_fails:
  assumes "create_order ex tr s sd q params = Inl e" and "\<not> contains float_message e"
  shows "submit_order ex s sd q params tr = (None, tr @ [CreateOrder s sd q params])"
  using assms by (simp add: submit_order_def)

lemma below_minimum_fails:
  assumes "fetch_positions ex tr (Some [s]) = Inr ps"
    and "market ex (tr @ [FetchPositions (Some [s])]) s = Inr min_amount"
    and "of_int \<lfloor>\<bar>q\<bar>\<rfloor> < min_amount"
  shows "place_adjusted_order ex s sd q params tr =
           (None, tr @ [FetchPositions (Some [s]), Market s])"
  using assms by (simp add: place_adjusted_order_def Let_def)

lemma place_order_returns:
  assumes "\<And>p. fetch_ticker ex tr (format_symbol_for_binance s) = Inr p \<Longrightarrow> 5 \<le> p * 2 ^ 53"
  shows "\<exists>r tr'. place_order ex s sd q (trade_params t) tr = Some (r, tr')"
proof (cases "fetch_ticker ex tr (format_symbol_for_binance s)")
  case (Inl e)
  then show ?thesis by (simp add: place_order_def)
next
  case (Inr p)
  with assms have "5 \<le> p * 2 ^ 53" by simp
  moreover have "\<not> reduce_only (trade_params t)" by (simp add: reduce_only_def trade_params_def)
  ultimately obtain y where "adjust_quantity q p (trade_params t) = Some y"
    using adjust_quantity_returns by blast
  with Inr have "place_order ex s sd q (trade_params t) tr =
      Some (place_adjusted_order ex (format_symbol_for_binance s) sd y (trade_params t)
        (tr @ [FetchTicker (format_symbol_for_binance s)]))"
    by (simp add: place_order_def Let_def)
  thus ?thesis by (metis surj_pair)
qed

lemma execute_plan_total:
  assumes "\<And>tr s p. fetch_ticker ex tr s = Inr p \<Longrightarrow> 5 \<le> p * 2 ^ 53"
  shows "\<exists>results tr'. execute_plan ex plan tr = Some (results, tr') \<and>
           length results = length plan"
proof (induction plan arbitrary: tr)
  case Nil
  show ?case by simp
next
  case (Cons t plan)
  from assms obtain r tr1 where 1: "execute_trade ex t tr = Some (r, tr1)"
    unfolding execute_trade_def using place_order_returns by blast
  from Cons[of "tr1 @ [Sleep]"] obtain rs tr2 where
    2: "execute_plan ex plan (tr1 @ [Sleep]) = Some (rs, tr2)" "length rs = length plan"
    by blast
  from 1 2 show ?case by simp
qed

lemma nonpositive_balance_aborts:
  assumes "fst (get_account_balance ex tr) \<le> 0"
  shows "run_daily_trade ex tgt tr = Some (tr @ [FetchBalance])"
  using assms by (auto simp: run_daily_trade_def get_account_balance_def split: sum.splits)

lemma pad_one_at_price_one: "pad_loop 1 1 = Some 5"
  by (simp add: pad_loop.simps pad_step_def double_round_eval)

lemma pad_fraction: "pad_loop (5 / 2) (3 / 8) = Some (27 / 2)"
  by (simp add: pad_loop.simps pad_step_def double_round_eval)

text \<open>
  Claim C6, as the code has it. The loop has no iteration bound and no failure of its
  own. For an order that is not reduce-only and a price \<open>p\<close> with \<open>p * 2 ^ 53 \<ge> 5\<close> it
  returns within \<open>\<lceil>5 / p\<rceil>\<close> rounds, at the first quantity whose computed notional
  value is not below 5, each round moving the quantity one unit away from zero in
  double arithmetic.
\<close>

theorem padding_terminates_within_bound:
  assumes "5 \<le> p * 2 ^ 53" and "\<not> reduce_only params"
  shows "\<exists>n. n \<le> nat \<lceil>5 / p\<rceil> \<and> adjust_quantity q p params = Some ((pad_step ^^ n) q) \<and>
             5 \<le> float_mul \<bar>(pad_step ^^ n) q\<bar> p \<and>
             (\<forall>k<n. float_mul \<bar>(pad_step ^^ k) q\<bar> p < 5)"
  using assms by (rule adjust_quantity_returns)

theorem padding_terminates_within_bound_witness:
  "(5::real) \<le> 1 * 2 ^ 53 \<and>
   \<not> reduce_only \<lparr>positionSide_param = Some LONG, reduceOnly_param = None\<rparr> \<and>
   adjust_quantity 1 1 \<lparr>positionSide_param = Some LONG, reduceOnly_param = None\<rparr> = Some 5 \<and>
   (\<exists>n. n \<le> nat \<lceil>5 / (1::real)\<rceil> \<and>
        adjust_quantity 1 1 \<lparr>positionSide_param = Some LONG, reduceOnly_param = None\<rparr> =
          Some ((pad_step ^^ n) 1) \<and>
        5 \<le> float_mul \<bar>(pad_step ^^ n) 1\<bar> 1 \<and>
        (\<forall>k<n. float_mul \<bar>(pad_step ^^ k) 1\<bar> 1 < 5))"
proof -
  have p: "(5::real) \<le> 1 * 2 ^ 53" by simp
  have r: "\<not> reduce_only \<lparr>positionSide_param = Some LONG, reduceOnly_param = None\<rparr>"
    by (simp add: reduce_only_def)
  have v: "adjust_quantity 1 1 \<lparr>positionSide_param = Some LONG, reduceOnly_param = None\<rparr>
      = Some 5"
    by (simp add: adjust_quantity_def reduce_only_def double_round_eval pad_one_at_price_one)
  from padding_terminates_within_bound [OF p r, of 1] p r v show ?thesis by blast
qed

text \<open>
  At price 0 the notional value is 0 whatever the quantity, and the loop never
  returns: the run has no value, neither a quantity nor a failure.
\<close>

theorem padding_unbounded_counterexample:
  "adjust_quantity 1 0 \<lparr>positionSide_param = Some LONG, reduceOnly_param = None\<rparr> = None"
  by (simp add: adjust_quantity_def reduce_only_def double_round_eval pad_loop_diverges)

text \<open>
  Claim C7. The adjustment of \<^verbatim>\<open>place_order\<close> spares an order whose \<^verbatim>\<open>params\<close> carry
  \<^verbatim>\<open>reduceOnly\<close>, and \<^verbatim>\<open>execute_trades\<close> never passes that key: a close action is
  sized like an opening order. The account holds 1 long contract of \<^verbatim>\<open>XRPUSDT\<close>, the
  symbol is not targeted and the price is 1: the plan closes 1 contract, and the order
  that reaches the exchange sells 5.
\<close>

theorem close_action_is_padded:
  "execute_trades
     \<lparr>fetch_balance = \<lambda>tr. Inr 100,
      fetch_positions = \<lambda>tr ss. Inr [\<lparr>pos_symbol = ''XRP/USDT:USDT'', pos_contracts = 1,
         pos_side = ''long'', pos_positionSide = LONG\<rparr>],
      fetch_ticker = \<lambda>tr s. Inr 1,
      market = \<lambda>tr s. Inr 1,
      create_order = \<lambda>tr s sd q prm. Inr 7,
      set_leverage_api = \<lambda>tr l s. Inr ()\<rparr>
     [(''ETHUSDT'', 0)] 1 [] =
   Some ([Some 7],
     [FetchPositions None, SetLeverage 1 ''XRPUSDT'', FetchTicker ''XRPUSDT'',
      FetchPositions (Some [''XRPUSDT'']), Market ''XRPUSDT'',
      CreateOrder ''XRPUSDT'' Sell 5 \<lparr>positionSide_param = Some LONG, reduceOnly_param = None\<rparr>,
      Sleep]) \<and>
   trade_plan (current_positions_of [\<lparr>pos_symbol = ''XRP/USDT:USDT'', pos_contracts = 1,
         pos_side = ''long'', pos_positionSide = LONG\<rparr>]) [(''ETHUSDT'', 0)] =
     [\<lparr>symbol = ''XRPUSDT'', side = Sell, quantity = 1, positionSide = LONG, action = Close\<rparr>]"
proof -
  have b: "current_positions_of [\<lparr>pos_symbol = ''XRP/USDT:USDT'', pos_contracts = 1,
         pos_side = ''long'', pos_positionSide = LONG\<rparr>] = [(''XRPUSDT'', default_info(LONG := 1))]"
    by (simp add: current_positions_of_def record_position_def format_symbol_for_binance_def
        endswith_def)
  have pl: "trade_plan [(''XRPUSDT'', default_info(LONG := 1))] [(''ETHUSDT'', 0)] =
     [\<lparr>symbol = ''XRPUSDT'', side = Sell, quantity = 1, positionSide = LONG, action = Close\<rparr>]"
    by (simp add: trade_plan_def clear_instrument_def adjust_instrument_def current_info_of_def
        format_symbol_for_binance_def endswith_def default_info_def)
  show ?thesis
    unfolding execute_trades_def
    by (simp add: b pl execute_trade_def place_order_def place_adjusted_order_def
        submit_order_def set_leverage_def adjust_quantity_def trade_params_def reduce_only_def
        no_params_def format_symbol_for_binance_def endswith_def Let_def double_round_eval
        pad_one_at_price_one)
qed

text \<open>
  Claim C8. The quantity is truncated to an integer after the loop has raised its
  notional value to 5, and the truncation can take it below 5 again. A requested
  quantity of 2.5 at price 0.375 is raised to 13.5, with notional value 5.0625, and
  submitted as 13, with notional value 4.875.
\<close>

theorem padded_quantity_truncated_below_floor:
  "adjust_quantity (5 / 2) (3 / 8) \<lparr>positionSide_param = Some LONG, reduceOnly_param = None\<rparr>
     = Some (27 / 2) \<and>
   order_quantity (5 / 2) (3 / 8) \<lparr>positionSide_param = Some LONG, reduceOnly_param = None\<rparr>
     = Some 13 \<and>
   real_of_int 13 * (3 / 8) < 5"
  by (simp add: order_quantity_def adjust_quantity_def reduce_only_def double_round_eval
      pad_fraction)

text \<open>
  Claim C9. When an action of the plan fails (its order is skipped or any exchange
  call of it raises, so that \<^verbatim>\<open>place_order\<close> returns \<^verbatim>\<open>None\<close>), its result is
  \<^verbatim>\<open>None\<close> and the rest of the plan is executed as it would be on its own, from the
  trace after the failed action and the pause. When every price \<open>p\<close> that the exchange
  reports has \<open>p * 2 ^ 53 \<ge> 5\<close>, the rest of the plan runs to its end, with one result
  for each action.
\<close>

theorem failed_action_does_not_abort:
  assumes "execute_plan ex pre tr = Some (rs, tr1)"
    and "execute_trade ex t tr1 = Some (None, tr2)"
  shows "execute_plan ex (pre @ t # post) tr =
           (case execute_plan ex post (tr2 @ [Sleep]) of
              None \<Rightarrow> None
            | Some (rs', tr3) \<Rightarrow> Some (rs @ None # rs', tr3)) \<and>
         ((\<forall>tr s p. fetch_ticker ex tr s = Inr p \<longrightarrow> 5 \<le> p * 2 ^ 53) \<longrightarrow>
          (\<exists>rs' tr3. execute_plan ex (pre @ t # post) tr = Some (rs @ None # rs', tr3) \<and>
             length rs' = length post))"
proof (intro conjI impI)
  show 1: "execute_plan ex (pre @ t # post) tr =
           (case execute_plan ex post (tr2 @ [Sleep]) of
              None \<Rightarrow> None
            | Some (rs', tr3) \<Rightarrow> Some (rs @ None # rs', tr3))"
    using assms by (simp add: execute_plan_append split: option.splits)
  assume "\<forall>tr s p. fetch_ticker ex tr s = Inr p \<longrightarrow> 5 \<le> p * 2 ^ 53"
  hence "\<exists>results tr'. execute_plan ex post (tr2 @ [Sleep]) = Some (results, tr') \<and>
           length results = length post"
    by (intro execute_plan_total) blast
  then obtain rs' tr3 where "execute_plan ex post (tr2 @ [Sleep]) = Some (rs', tr3)"
    and "length rs' = length post" by blast
  with 1 show "\<exists>rs' tr3. execute_plan ex (pre @ t # post) tr = Some (rs @ None # rs', tr3) \<and>
          length rs' = length post" by simp
qed

theorem failed_action_does_not_abort_witness:
  "execute_plan
     \<lparr>fetch_balance = \<lambda>tr. Inr 100,
      fetch_positions = \<lambda>tr ss. Inr [],
      fetch_ticker = \<lambda>tr s. Inr 10,
      market = \<lambda>tr s. Inr (if s = ''AUSDT'' then 100 else 1),
      create_order = \<lambda>tr s sd q prm. if s = ''BUSDT'' then Inl ''InvalidOrder'' else Inr 7,
      set_leverage_api = \<lambda>tr l s. Inl ''NotSupported''\<rparr>
     ([\<lparr>symbol = ''AUSDT'', side = Buy, quantity = 3, positionSide = LONG, action = Adjust\<rparr>] @
      \<lparr>symbol = ''BUSDT'', side = Sell, quantity = 2, positionSide = LONG, action = Close\<rparr> #
      [\<lparr>symbol = ''CUSDT'', side = Sell, quantity = 4, positionSide = SHORT, action = Adjust\<rparr>])
     [] =
   Some ([None] @ None # [Some 7],
     [SetLeverage 1 ''AUSDT'', FetchTicker ''AUSDT'', FetchPositions (Some [''AUSDT'']),
      Market ''AUSDT'', Sleep,
      SetLeverage 1 ''BUSDT'', FetchTicker ''BUSDT'', FetchPositions (Some [''BUSDT'']),
      Market ''BUSDT'',
      CreateOrder ''BUSDT'' Sell 2 \<lparr>positionSide_param = Some LONG, reduceOnly_param = None\<rparr>,
      Sleep,
      SetLeverage 1 ''CUSDT'', FetchTicker ''CUSDT'', FetchPositions (Some [''CUSDT'']),
      Market ''CUSDT'',
      CreateOrder ''CUSDT'' Sell 4 \<lparr>positionSide_param = Some SHORT, reduceOnly_param = None\<rparr>,
      Sleep])"
proof -
  define ex where "ex =
     \<lparr>fetch_balance = \<lambda>tr. Inr 100,
      fetch_positions = \<lambda>tr ss. Inr [],
      fetch_ticker = \<lambda>tr s. Inr 10,
      market = \<lambda>tr s. Inr (if s = ''AUSDT'' then 100 else 1),
      create_order = \<lambda>tr s sd q prm. if s = ''BUSDT'' then Inl ''InvalidOrder'' else Inr 7,
      set_leverage_api = \<lambda>tr l s. Inl ''NotSupported''\<rparr>"
  define tA where "tA =
     \<lparr>symbol = ''AUSDT'', side = Buy, quantity = 3, positionSide = LONG, action = Adjust\<rparr>"
  define tB where "tB =
     \<lparr>symbol = ''BUSDT'', side = Sell, quantity = 2, positionSide = LONG, action = Close\<rparr>"
  define tC where "tC =
     \<lparr>symbol = ''CUSDT'', side = Sell, quantity = 4, positionSide = SHORT, action = Adjust\<rparr>"
  define trA where "trA = [SetLeverage 1 ''AUSDT'', FetchTicker ''AUSDT'',
      FetchPositions (Some [''AUSDT'']), Market ''AUSDT'', Sleep]"
  define trB where "trB = trA @ [SetLeverage 1 ''BUSDT'', FetchTicker ''BUSDT'',
      FetchPositions (Some [''BUSDT'']), Market ''BUSDT'',
      CreateOrder ''BUSDT'' Sell 2 \<lparr>positionSide_param = Some LONG, reduceOnly_param = None\<rparr>]"
  define trC where "trC = trB @ [Sleep, SetLeverage 1 ''CUSDT'', FetchTicker ''CUSDT'',
      FetchPositions (Some [''CUSDT'']), Market ''CUSDT'',
      CreateOrder ''CUSDT'' Sell 4 \<lparr>positionSide_param = Some SHORT, reduceOnly_param = None\<rparr>,
      Sleep]"
  note evs = execute_trade_def place_order_def place_adjusted_order_def submit_order_def
    set_leverage_def adjust_quantity_def trade_params_def reduce_only_def no_params_def
    format_symbol_for_binance_def endswith_def float_message_def Let_def double_round_eval
  have a: "execute_plan ex [tA] [] = Some ([None], trA)"
    by (simp add: ex_def tA_def trA_def evs)
  have b: "execute_trade ex tB trA = Some (None, trB)"
    by (simp add: ex_def tB_def trA_def trB_def evs)
  have c: "execute_plan ex [tC] (trB @ [Sleep]) = Some ([Some 7], trC)"
    by (simp add: ex_def tC_def trA_def trB_def trC_def evs)
  from failed_action_does_not_abort [OF a b, of "[tC]", THEN conjunct1] c
  have "execute_plan ex ([tA] @ tB # [tC]) [] = Some ([None] @ None # [Some 7], trC)"
    by simp
  thus ?thesis
    unfolding ex_def tA_def tB_def tC_def trA_def trB_def trC_def by simp
qed

text \<open>
  Claim C10. When fetching the balance raises, \<^verbatim>\<open>get_account_balance\<close> returns 0,
  and \<^verbatim>\<open>run_daily_trade\<close> returns after that single call: no position is fetched,
  no plan is built and no order is submitted.
\<close>

theorem balance_failure_aborts_cycle:
  assumes "fetch_balance ex tr = Inl e"
  shows "get_account_balance ex tr = (0, tr @ [FetchBalance]) \<and>
         run_daily_trade ex tgt tr = Some (tr @ [FetchBalance])"
proof -
  from assms have b: "get_account_balance ex tr = (0, tr @ [FetchBalance])"
    by (simp add: get_account_balance_def)
  hence "fst (get_account_balance ex tr) \<le> 0" by simp
  from b nonpositive_balance_aborts[OF this] show ?thesis by simp
qed

theorem balance_failure_aborts_cycle_witness:
  "fetch_balance \<lparr>fetch_balance = \<lambda>tr. Inl ''RequestTimeout'',
      fetch_positions = \<lambda>tr ss. Inr [],
      fetch_ticker = \<lambda>tr s. Inr 10,
      market = \<lambda>tr s. Inr 1,
      create_order = \<lambda>tr s sd q prm. Inr 7,
      set_leverage_api = \<lambda>tr l s. Inr ()\<rparr> [] = Inl ''RequestTimeout'' \<and>
   get_account_balance \<lparr>fetch_balance = \<lambda>tr. Inl ''RequestTimeout'',
      fetch_positions = \<lambda>tr ss. Inr [],
      fetch_ticker = \<lambda>tr s. Inr 10,
      market = \<lambda>tr s. Inr 1,
      create_order = \<lambda>tr s sd q prm. Inr 7,
      set_leverage_api = \<lambda>tr l s. Inr ()\<rparr> [] = (0, [FetchBalance]) \<and>
   run_daily_trade \<lparr>fetch_balance = \<lambda>tr. Inl ''RequestTimeout'',
      fetch_positions = \<lambda>tr ss. Inr [],
      fetch_ticker = \<lambda>tr s. Inr 10,
      market = \<lambda>tr s. Inr 1,
      create_order = \<lambda>tr s sd q prm. Inr 7,
      set_leverage_api = \<lambda>tr l s. Inr ()\<rparr> [(''BTCUSDT'', 10)] [] = Some [FetchBalance]"
  using balance_failure_aborts_cycle [of "\<lparr>fetch_balance = \<lambda>tr. Inl ''RequestTimeout'',
      fetch_positions = \<lambda>tr ss. Inr [],
      fetch_ticker = \<lambda>tr s. Inr 10,
      market = \<lambda>tr s. Inr 1,
      create_order = \<lambda>tr s sd q prm. Inr 7,
      set_leverage_api = \<lambda>tr l s. Inr ()\<rparr>" "[]" "''RequestTimeout''" "[(''BTCUSDT'', 10)]"]
  by simp

end
